theory Spec2Isabelle
  imports Main "HOL-Library.Sublist"
begin

section \<open>The EC2 start/stop scheduler\<close>

text \<open>
  A shallow embedding of \<^verbatim>\<open>Ec2-start-stop-instances.py\<close>. The script talks to three
  services of the cloud provider (the parameter store, the compute service and the
  notification service), reads the clock and writes log records. All of that is made
  explicit: the outside world is a record of answer functions (\<open>provider\<close>), and the run
  leaves a trace of the calls it made and of the log records it wrote (\<open>world\<close>).
  A Python exception is a value of type \<open>exn\<close>; a computation returns \<open>Inl e\<close> when it
  raises \<open>e\<close> and \<open>Inr x\<close> when it returns \<open>x\<close>.
\<close>

subsection \<open>Values\<close>

text \<open>An exception, as far as the script looks at it: the text \<^verbatim>\<open>str(e)\<close>.\<close>

datatype exn = Exception string

fun str :: "exn \<Rightarrow> string" where
  "str (Exception m) = m"

text \<open>
  \<^verbatim>\<open>datetime.time\<close> and \<^verbatim>\<open>datetime.datetime\<close>. Two naive times compare as the tuples
  (hour, minute, second, microsecond) do, lexicographically.
\<close>

record time_of_day =
  hour :: nat
  minute :: nat
  second :: nat
  microsecond :: nat

record datetime =
  year :: nat
  month :: nat
  day :: nat
  time :: time_of_day

definition time_less :: "time_of_day \<Rightarrow> time_of_day \<Rightarrow> bool" where
  "time_less a b =
     (hour a < hour b \<or> (hour a = hour b \<and>
       (minute a < minute b \<or> (minute a = minute b \<and>
         (second a < second b \<or> (second a = second b \<and>
           microsecond a < microsecond b))))))"

definition time_less_eq :: "time_of_day \<Rightarrow> time_of_day \<Rightarrow> bool" where
  "time_less_eq a b = (time_less a b \<or> a = b)"

text \<open>
  One entry of \<^verbatim>\<open>reservation['Instances']\<close>, in the shape the compute service documents:
  \<^verbatim>\<open>InstanceId\<close> and \<^verbatim>\<open>State.Name\<close> are always there, every tag has a \<^verbatim>\<open>Key\<close> and a
  \<^verbatim>\<open>Value\<close>; \<^verbatim>\<open>PrivateIpAddress\<close>, \<^verbatim>\<open>InstanceType\<close> and \<^verbatim>\<open>Tags\<close> may be absent, and the
  script reads those three with \<^verbatim>\<open>get\<close> and \<^verbatim>\<open>in\<close>. The tags are a list in the order of
  the response, so that a repeated key is not excluded.
\<close>

record ec2_instance =
  InstanceId :: string
  State_Name :: string
  PrivateIpAddress :: "string option"
  InstanceType :: "string option"
  Tags :: "(string \<times> string) list option"

type_synonym reservation = "ec2_instance list"

text \<open>The value \<^verbatim>\<open>lambda_handler\<close> returns.\<close>

record response =
  statusCode :: nat
  body :: string

subsection \<open>The outside world\<close>

text \<open>
  What a run does that can be seen from outside, in the order it happens: the requests it
  sends to the provider, with their arguments, and the records it logs.
\<close>

datatype event =
    Log_info string
  | Log_error string
  | Get_parameter string
  | Describe_instances "(string \<times> string list) list"
  | Start_instances "string list"
  | Stop_instances "string list"
  | Publish string string string

record world =
  trace :: "event list"
  ticks :: nat

text \<open>
  The provider answers a request with a result or with an exception; the answer may
  depend on everything the run has done before (the trace at the moment of the request).
  \<open>utcnow n\<close> is what the \<open>n\<close>-th reading of the clock returns. \<open>isoformat\<close> and
  \<open>total_seconds_2f\<close> are the library's renderings the reports use:
  \<^verbatim>\<open>d.isoformat()\<close>, and \<^verbatim>\<open>(a - b).total_seconds()\<close> formatted with \<^verbatim>\<open>:.2f\<close>, a floating
  point rounding that the embedding takes as given.
\<close>

record provider =
  environ :: "string \<Rightarrow> string option"
  utcnow :: "nat \<Rightarrow> datetime"
  isoformat :: "datetime \<Rightarrow> string"
  total_seconds_2f :: "datetime \<Rightarrow> datetime \<Rightarrow> string"
  ssm_get_parameter :: "event list \<Rightarrow> string \<Rightarrow> exn + string"
  ec2_describe_instances ::
    "event list \<Rightarrow> (string \<times> string list) list \<Rightarrow> exn + reservation list"
  ec2_start_instances :: "event list \<Rightarrow> string list \<Rightarrow> exn option"
  ec2_stop_instances :: "event list \<Rightarrow> string list \<Rightarrow> exn option"
  sns_publish :: "event list \<Rightarrow> string \<Rightarrow> string \<Rightarrow> string \<Rightarrow> exn option"

subsection \<open>Computations that may raise\<close>

type_synonym 'a io = "world \<Rightarrow> (exn + 'a) \<times> world"

definition return :: "'a \<Rightarrow> 'a io" where
  "return x = (\<lambda>w. (Inr x, w))"

definition raise :: "exn \<Rightarrow> 'a io" where
  "raise e = (\<lambda>w. (Inl e, w))"

text \<open>Sequencing: an exception of the first statement skips the rest.\<close>

definition bind :: "'a io \<Rightarrow> ('a \<Rightarrow> 'b io) \<Rightarrow> 'b io" where
  "bind m f = (\<lambda>w. case m w of (Inl e, w') \<Rightarrow> (Inl e, w') | (Inr x, w') \<Rightarrow> f x w')"

text \<open>\<^verbatim>\<open>try: m  except Exception as e: h e\<close>\<close>

definition try_except :: "'a io \<Rightarrow> (exn \<Rightarrow> 'a io) \<Rightarrow> 'a io" where
  "try_except m h = (\<lambda>w. case m w of (Inl e, w') \<Rightarrow> h e w' | (Inr x, w') \<Rightarrow> (Inr x, w'))"

text \<open>\<^verbatim>\<open>for x in xs: f x\<close>\<close>

fun for_each :: "'a list \<Rightarrow> ('a \<Rightarrow> unit io) \<Rightarrow> unit io" where
  "for_each [] f = return ()"
| "for_each (x # xs) f = bind (f x) (\<lambda>_. for_each xs f)"

definition emit :: "event \<Rightarrow> world \<Rightarrow> world" where
  "emit ev w = w\<lparr>trace := trace w @ [ev]\<rparr>"

definition log_info :: "string \<Rightarrow> unit io" where
  "log_info msg = (\<lambda>w. (Inr (), emit (Log_info msg) w))"

definition log_error :: "string \<Rightarrow> unit io" where
  "log_error msg = (\<lambda>w. (Inr (), emit (Log_error msg) w))"

text \<open>\<^verbatim>\<open>datetime.now(tz=timezone.utc)\<close>\<close>

definition now :: "provider \<Rightarrow> datetime io" where
  "now env = (\<lambda>w. (Inr (utcnow env (ticks w)), w\<lparr>ticks := Suc (ticks w)\<rparr>))"

text \<open>A request without a result of interest: sent, then it returns or raises.\<close>

definition request :: "event \<Rightarrow> exn option \<Rightarrow> unit io" where
  "request ev answer =
     (\<lambda>w. (case answer of None \<Rightarrow> Inr () | Some e \<Rightarrow> Inl e, emit ev w))"

definition get_parameter :: "provider \<Rightarrow> string \<Rightarrow> string io" where
  "get_parameter env name =
     (\<lambda>w. (ssm_get_parameter env (trace w) name, emit (Get_parameter name) w))"

definition describe_instances ::
  "provider \<Rightarrow> (string \<times> string list) list \<Rightarrow> reservation list io" where
  "describe_instances env filters =
     (\<lambda>w. (ec2_describe_instances env (trace w) filters, emit (Describe_instances filters) w))"

definition start_instances :: "provider \<Rightarrow> string list \<Rightarrow> unit io" where
  "start_instances env ids =
     (\<lambda>w. request (Start_instances ids) (ec2_start_instances env (trace w) ids) w)"

definition stop_instances :: "provider \<Rightarrow> string list \<Rightarrow> unit io" where
  "stop_instances env ids =
     (\<lambda>w. request (Stop_instances ids) (ec2_stop_instances env (trace w) ids) w)"

definition publish :: "provider \<Rightarrow> string \<Rightarrow> string \<Rightarrow> string \<Rightarrow> unit io" where
  "publish env topic subject message =
     (\<lambda>w. request (Publish topic subject message)
            (sns_publish env (trace w) topic subject message) w)"

subsection \<open>Module level\<close>

definition region :: string where
  "region = ''us-east-2''"

definition LAMBDA_NAME :: string where
  "LAMBDA_NAME = ''ec2-scheduler-lambda''"

definition nl :: string where
  "nl = [CHR 0x0A]"

text \<open>
  \<^verbatim>\<open>get_sns_topic_arn\<close>: the name of the parameter comes from the process environment,
  with a default; a failure of the lookup is logged and raised again.
\<close>

definition get_sns_topic_arn :: "provider \<Rightarrow> string io" where
  "get_sns_topic_arn env =
     try_except
       (let parameter_name =
              (case environ env ''SNS_TOPIC_PARAM_NAME'' of
                 None \<Rightarrow> ''ec2-notification-sns'' | Some v \<Rightarrow> v)
        in get_parameter env parameter_name)
       (\<lambda>e. bind (log_error (''Failed to get SNS topic ARN from SSM: '' @ str e))
                 (\<lambda>_. raise e))"

text \<open>
  \<^verbatim>\<open>send_sns_notification\<close>. \<open>SNS_TOPIC_ARN\<close> is the module's global, set when the module is
  loaded. Making the client object sends nothing to the provider.
\<close>

definition send_sns_notification :: "provider \<Rightarrow> string \<Rightarrow> string \<Rightarrow> string \<Rightarrow> unit io" where
  "send_sns_notification env SNS_TOPIC_ARN subject message =
     try_except
       (bind (publish env SNS_TOPIC_ARN subject message)
             (\<lambda>_. log_info (''SNS Notification sent: '' @ subject)))
       (\<lambda>e. log_error (''Failed to send SNS notification: '' @ str e))"

subsection \<open>The handler\<close>

text \<open>
  The local variables lines 58 to 76 set for one instance. Absent fields and absent tags
  leave the placeholder.
\<close>

record details =
  instance_id :: string
  instance_state :: string
  instance_ip :: string
  instance_type :: string
  instance_region :: string
  instance_name :: string
  environment :: string
  owner :: string

text \<open>
  Lines 69 to 76: every tag of the instance, in order, overwrites the variable its key
  names.
\<close>

fun tag_step :: "details \<Rightarrow> string \<times> string \<Rightarrow> details" where
  "tag_step d (key, val) =
     (if key = ''Name'' then d\<lparr>instance_name := val\<rparr>
      else if key = ''Environment'' then d\<lparr>environment := val\<rparr>
      else if key = ''Owner'' then d\<lparr>owner := val\<rparr>
      else d)"

definition read_instance :: "ec2_instance \<Rightarrow> details" where
  "read_instance instance =
     (let d = \<lparr>instance_id = InstanceId instance,
               instance_state = State_Name instance,
               instance_ip = (case PrivateIpAddress instance of None \<Rightarrow> ''N/A'' | Some v \<Rightarrow> v),
               instance_type = (case InstanceType instance of None \<Rightarrow> ''N/A'' | Some v \<Rightarrow> v),
               instance_region = region,
               instance_name = ''N/A'',
               environment = ''N/A'',
               owner = ''N/A''\<rparr>
      in case Tags instance of None \<Rightarrow> d | Some tags \<Rightarrow> foldl tag_step d tags)"

text \<open>The log record of line 78.\<close>

definition checking_message :: "details \<Rightarrow> string" where
  "checking_message d =
     ''Checking instance '' @ instance_id d @ '' ('' @ instance_name d @ '', '' @ instance_ip d
       @ '') - Current state: '' @ instance_state d"

definition workday_start :: time_of_day where
  "workday_start = \<lparr>hour = 3, minute = 30, second = 0, microsecond = 0\<rparr>"

definition workday_stop :: time_of_day where
  "workday_stop = \<lparr>hour = 8, minute = 0, second = 0, microsecond = 0\<rparr>"

text \<open>The test of line 88.\<close>

definition in_workday :: "time_of_day \<Rightarrow> bool" where
  "in_workday current_utc_time =
     (time_less_eq workday_start current_utc_time \<and> time_less current_utc_time workday_stop)"

text \<open>
  Lines 88 to 103, the first half of the \<^verbatim>\<open>try\<close> block. The result is the pair of the
  variables \<^verbatim>\<open>action\<close> and \<^verbatim>\<open>current_state\<close>; when the request raises, \<^verbatim>\<open>action\<close> is
  still \<^verbatim>\<open>None\<close>.
\<close>

definition change_state ::
  "provider \<Rightarrow> time_of_day \<Rightarrow> string \<Rightarrow> string \<Rightarrow> (string option \<times> string) io" where
  "change_state env current_utc_time iid state =
     (if in_workday current_utc_time then
        (if state = ''stopped'' then
           bind (start_instances env [iid])
                (\<lambda>_. return (Some ''STARTED'', ''running''))
         else return (None, state))
      else
        (if state = ''running'' then
           bind (stop_instances env [iid])
                (\<lambda>_. return (Some ''STOPPED'', ''stopped''))
         else return (None, state)))"

text \<open>The report of lines 110 to 125: one piece for each line of the source.\<close>

definition success_message ::
  "string \<Rightarrow> details \<Rightarrow> string \<Rightarrow> string \<Rightarrow> string \<Rightarrow> string \<Rightarrow> string" where
  "success_message action d previous_state current_state execution_time duration =
     concat
      [''Action        : '' @ action @ nl,
       ''Instance ID   : '' @ instance_id d @ nl,
       ''Instance Name : '' @ instance_name d @ nl,
       ''Region        : '' @ instance_region d @ nl,
       ''Instance Type : '' @ instance_type d @ nl,
       ''Previous State: '' @ previous_state @ nl,
       ''Current State : '' @ current_state @ nl,
       ''Environment   : '' @ environment d @ nl,
       ''Owner         : '' @ owner d @ nl,
       ''Triggered By  : EventBridge Rule - ec2-start-stop-instances'' @ nl,
       ''Lambda Name   : '' @ LAMBDA_NAME @ nl,
       ''Execution Time: '' @ execution_time @ nl,
       ''Duration      : '' @ duration @ '' seconds'' @ nl,
       ''Result        : SUCCESS'']"

text \<open>The report of lines 131 to 147.\<close>

definition failure_message ::
  "string \<Rightarrow> details \<Rightarrow> string \<Rightarrow> string \<Rightarrow> string \<Rightarrow> string \<Rightarrow> string" where
  "failure_message action d previous_state execution_time duration error =
     concat
      [''Action        : '' @ action @ nl,
       ''Instance ID   : '' @ instance_id d @ nl,
       ''Instance Name : '' @ instance_name d @ nl,
       ''Region        : '' @ instance_region d @ nl,
       ''Instance Type : '' @ instance_type d @ nl,
       ''Previous State: '' @ previous_state @ nl,
       ''Current State : ERROR'' @ nl,
       ''Environment   : '' @ environment d @ nl,
       ''Owner         : '' @ owner d @ nl,
       ''Triggered By  : EventBridge Rule - ec2-start-stop-instances'' @ nl,
       ''Lambda Name   : '' @ LAMBDA_NAME @ nl,
       ''Execution Time: '' @ execution_time @ nl,
       ''Duration      : '' @ duration @ '' seconds'' @ nl,
       ''Result        : FAILURE'' @ nl,
       ''Error         : '' @ error]"

text \<open>\<^verbatim>\<open>x if action else y\<close>: \<^verbatim>\<open>None\<close> and the empty string count as false.\<close>

fun if_action :: "string option \<Rightarrow> (string \<Rightarrow> 'a) \<Rightarrow> 'a \<Rightarrow> 'a" where
  "if_action None x y = y"
| "if_action (Some a) x y = (if a = [] then y else x a)"

text \<open>Lines 105 to 126, the second half of the \<^verbatim>\<open>try\<close> block.\<close>

definition report ::
  "provider \<Rightarrow> string \<Rightarrow> datetime \<Rightarrow> details \<Rightarrow> string \<Rightarrow> string option \<Rightarrow> string \<Rightarrow> unit io" where
  "report env SNS_TOPIC_ARN start_time d previous_state action current_state =
     bind (now env) (\<lambda>end_time.
       let duration = total_seconds_2f env end_time start_time in
       if_action action
         (\<lambda>a. send_sns_notification env SNS_TOPIC_ARN (''EC2 Instance '' @ a)
                (success_message a d previous_state current_state
                   (isoformat env end_time) duration))
         (return ()))"

text \<open>
  Lines 128 to 148, the \<^verbatim>\<open>except\<close> block, with the value \<^verbatim>\<open>action\<close> has when the
  exception arrives. The clock is read twice while the message is put together.
\<close>

definition on_exception ::
  "provider \<Rightarrow> string \<Rightarrow> datetime \<Rightarrow> details \<Rightarrow> string \<Rightarrow> string option \<Rightarrow> exn \<Rightarrow> unit io" where
  "on_exception env SNS_TOPIC_ARN start_time d previous_state action e =
     bind (log_error (''Error processing instance '' @ instance_id d @ '': '' @ str e)) (\<lambda>_.
     bind (now env) (\<lambda>execution_time.
     bind (now env) (\<lambda>end_time.
       send_sns_notification env SNS_TOPIC_ARN
         (''EC2 Instance '' @ if_action action (\<lambda>a. a) ''FAILED'')
         (failure_message (if_action action (\<lambda>a. a) ''N/A'') d previous_state
            (isoformat env execution_time) (total_seconds_2f env end_time start_time)
            (str e)))))"

text \<open>Lines 58 to 148, the body of the inner loop.\<close>

definition process_instance :: "provider \<Rightarrow> string \<Rightarrow> datetime \<Rightarrow> ec2_instance \<Rightarrow> unit io" where
  "process_instance env SNS_TOPIC_ARN start_time instance =
     (let d = read_instance instance in
      bind (log_info (checking_message d)) (\<lambda>_.
      bind (now env) (\<lambda>t.
        let current_utc_time = time t;
            previous_state = instance_state d
        in (\<lambda>w.
          case change_state env current_utc_time (instance_id d) (instance_state d) w of
            (Inl e, w') \<Rightarrow>
              on_exception env SNS_TOPIC_ARN start_time d previous_state None e w'
          | (Inr (action, current_state), w') \<Rightarrow>
              try_except
                (report env SNS_TOPIC_ARN start_time d previous_state action current_state)
                (on_exception env SNS_TOPIC_ARN start_time d previous_state action)
                w'))))"

text \<open>Lines 56 to 148, the two loops over the answer of the listing request.\<close>

definition process_reservations ::
  "provider \<Rightarrow> string \<Rightarrow> datetime \<Rightarrow> reservation list \<Rightarrow> unit io" where
  "process_reservations env SNS_TOPIC_ARN start_time reservations =
     for_each reservations (\<lambda>reservation.
       for_each reservation (\<lambda>instance.
         process_instance env SNS_TOPIC_ARN start_time instance))"

text \<open>
  \<^verbatim>\<open>lambda_handler\<close>. The event and the context are not looked at. An exception of the
  listing request is not caught.
\<close>

definition lambda_handler :: "provider \<Rightarrow> string \<Rightarrow> 'e \<Rightarrow> 'c \<Rightarrow> response io" where
  "lambda_handler env SNS_TOPIC_ARN event context =
     bind (now env) (\<lambda>start_time.
     let workday_filter = [(''tag:Reboot'', [''WORKDAY''])] in
     bind (log_info ''Fetching instances with tag Reboot=WORKDAY'') (\<lambda>_.
     bind (describe_instances env workday_filter) (\<lambda>reservations.
     bind (process_reservations env SNS_TOPIC_ARN start_time reservations) (\<lambda>_.
     bind (log_info ''EC2 start/stop check and SNS notification completed successfully.'') (\<lambda>_.
     return \<lparr>statusCode = 200, body = ''EC2 start/stop check completed successfully.''\<rparr>)))))"

text \<open>
  A run from a fresh process: the module is loaded, which sets \<open>SNS_TOPIC_ARN\<close> at line 26,
  and only then can the handler be called. An exception while the module is loaded ends
  the run.
\<close>

definition run :: "provider \<Rightarrow> 'e \<Rightarrow> 'c \<Rightarrow> response io" where
  "run env event context =
     bind (get_sns_topic_arn env) (\<lambda>SNS_TOPIC_ARN.
       lambda_handler env SNS_TOPIC_ARN event context)"

subsection \<open>Observations and sample runs\<close>

text \<open>
  What the properties below read off a trace: the requests that change the state of an
  instance, the messages that were published, and the reports one instance adds. The
  sample provider answers every request; it refuses to start or stop the instances
  listed in \<open>broken\<close>, and its clock shows the hour \<open>h\<close>.
\<close>

fun is_state_change :: "event \<Rightarrow> bool" where
  "is_state_change (Start_instances ids) = True"
| "is_state_change (Stop_instances ids) = True"
| "is_state_change ev = False"

definition state_changes :: "event list \<Rightarrow> event list" where
  "state_changes tr = filter is_state_change tr"

fun message_of :: "event \<Rightarrow> string list" where
  "message_of (Publish topic subject message) = [message]"
| "message_of ev = []"

definition published :: "event list \<Rightarrow> string list" where
  "published tr = concat (map message_of tr)"

definition reports_of :: "provider \<Rightarrow> string \<Rightarrow> datetime \<Rightarrow> ec2_instance \<Rightarrow> world \<Rightarrow> string list" where
  "reports_of env arn st i w =
     drop (length (published (trace w)))
       (published (trace (snd (process_instance env arn st i w))))"

definition sample_instance :: "string \<Rightarrow> string \<Rightarrow> ec2_instance" where
  "sample_instance iid state =
     \<lparr>InstanceId = iid, State_Name = state, PrivateIpAddress = None,
      InstanceType = Some ''t3.micro'',
      Tags = Some [(''Reboot'', ''WORKDAY''), (''Name'', ''web-1''),
                   (''Environment'', ''dev''), (''Owner'', ''alice'')]\<rparr>"

definition sample_env :: "nat \<Rightarrow> string list \<Rightarrow> provider" where
  "sample_env h broken =
     \<lparr>environ = (\<lambda>name. None),
      utcnow = (\<lambda>n. \<lparr>year = 2024, month = 5, day = 6,
                      time = \<lparr>hour = h, minute = 0, second = n, microsecond = 0\<rparr>\<rparr>),
      isoformat = (\<lambda>d. ''2024-05-06T00:00:00+00:00''),
      total_seconds_2f = (\<lambda>a b. ''0.25''),
      ssm_get_parameter = (\<lambda>tr name.
         if name = ''ec2-notification-sns'' then Inr ''arn:aws:sns:us-east-2:111122223333:ec2''
         else Inl (Exception ''ParameterNotFound'')),
      ec2_describe_instances = (\<lambda>tr filters.
         Inr [[sample_instance ''i-0a'' ''stopped''], [sample_instance ''i-0b'' ''stopped'']]),
      ec2_start_instances = (\<lambda>tr ids.
         if list_ex (\<lambda>x. x \<in> set broken) ids then Some (Exception ''InsufficientCapacity'')
         else None),
      ec2_stop_instances = (\<lambda>tr ids.
         if list_ex (\<lambda>x. x \<in> set broken) ids then Some (Exception ''IncorrectState'')
         else None),
      sns_publish = (\<lambda>tr topic subject message. None)\<rparr>"

definition sample_world :: world where
  "sample_world = \<lparr>trace = [], ticks = 0\<rparr>"

definition sample_start_time :: datetime where
  "sample_start_time = \<lparr>year = 2024, month = 5, day = 6,
      time = \<lparr>hour = 0, minute = 0, second = 0, microsecond = 0\<rparr>\<rparr>"

definition at_hour :: "nat \<Rightarrow> time_of_day" where
  "at_hour h = \<lparr>hour = h, minute = 0, second = 0, microsecond = 0\<rparr>"

definition sample_reservations :: "reservation list" where
  "sample_reservations =
     [[sample_instance ''i-0a'' ''stopped''], [sample_instance ''i-0b'' ''stopped'']]"

definition sns_down :: "event list \<Rightarrow> string \<Rightarrow> string \<Rightarrow> string \<Rightarrow> exn option" where
  "sns_down tr topic subject message = Some (Exception ''AuthorizationError'')"

section \<open>Properties\<close>

lemma send_sns_notification_eq:
  "send_sns_notification env arn subject message w =
     (Inr (), w\<lparr>trace := trace w @
        [Publish arn subject message,
         (case sns_publish env (trace w) arn subject message of
            None \<Rightarrow> Log_info (''SNS Notification sent: '' @ subject)
          | Some e \<Rightarrow> Log_error (''Failed to send SNS notification: '' @ str e))]\<rparr>)"
  by (simp add: send_sns_notification_def try_except_def bind_def publish_def request_def
      log_info_def log_error_def emit_def split: option.split)

lemmas io_defs = return_def raise_def bind_def try_except_def log_info_def log_error_def
  now_def request_def emit_def start_instances_def stop_instances_def publish_def

lemma in_workday_iff:
  "in_workday t \<longleftrightarrow> (hour t = 3 \<and> 30 \<le> minute t) \<or> (4 \<le> hour t \<and> hour t < 8)"
  by (cases t) (auto simp: in_workday_def time_less_eq_def time_less_def workday_start_def workday_stop_def)

lemma report_eq:
  "report env arn st d prev action cur w =
     if_action action
       (\<lambda>a. send_sns_notification env arn (''EC2 Instance '' @ a)
              (success_message a d prev cur (isoformat env (utcnow env (ticks w)))
                 (total_seconds_2f env (utcnow env (ticks w)) st)))
       (return ()) (w\<lparr>ticks := Suc (ticks w)\<rparr>)"
  by (cases action) (simp_all add: report_def bind_def now_def Let_def)

lemma report_returns: "fst (report env arn st d prev action cur w) = Inr ()"
  by (cases action) (simp_all add: report_eq send_sns_notification_eq return_def)

lemma on_exception_eq:
  "on_exception env arn st d prev action e w =
     send_sns_notification env arn
       (''EC2 Instance '' @ if_action action (\<lambda>a. a) ''FAILED'')
       (failure_message (if_action action (\<lambda>a. a) ''N/A'') d prev
          (isoformat env (utcnow env (ticks w)))
          (total_seconds_2f env (utcnow env (Suc (ticks w))) st) (str e))
       (w\<lparr>trace := trace w @ [Log_error (''Error processing instance '' @ instance_id d @ '': '' @ str e)],
          ticks := Suc (Suc (ticks w))\<rparr>)"
  by (simp add: on_exception_def bind_def now_def log_error_def emit_def)

lemma on_exception_returns: "fst (on_exception env arn st d prev action e w) = Inr ()"
  by (simp add: on_exception_eq send_sns_notification_eq)

lemma process_instance_returns: "fst (process_instance env arn st i w) = Inr ()"
  by (simp add: process_instance_def Let_def bind_def log_info_def now_def try_except_def
      on_exception_returns report_returns split: prod.split sum.split)

lemma foldl_tag_step_keeps:
  "instance_id (foldl tag_step d tags) = instance_id d \<and>
   instance_state (foldl tag_step d tags) = instance_state d \<and>
   instance_ip (foldl tag_step d tags) = instance_ip d \<and>
   instance_type (foldl tag_step d tags) = instance_type d \<and>
   instance_region (foldl tag_step d tags) = instance_region d"
  by (induction tags arbitrary: d) auto

lemma read_instance_fixed [simp]:
  "instance_id (read_instance i) = InstanceId i"
  "instance_state (read_instance i) = State_Name i"
  "instance_ip (read_instance i) = (case PrivateIpAddress i of None \<Rightarrow> ''N/A'' | Some v \<Rightarrow> v)"
  "instance_type (read_instance i) = (case InstanceType i of None \<Rightarrow> ''N/A'' | Some v \<Rightarrow> v)"
  "instance_region (read_instance i) = region"
  by (simp_all add: read_instance_def Let_def foldl_tag_step_keeps split: option.split)

lemma process_instance_eq:
  "process_instance env arn st i w =
     (let d = read_instance i;
          w1 = w\<lparr>trace := trace w @ [Log_info (checking_message d)], ticks := Suc (ticks w)\<rparr>
      in case change_state env (time (utcnow env (ticks w))) (InstanceId i) (State_Name i) w1 of
           (Inl e, w') \<Rightarrow> on_exception env arn st d (State_Name i) None e w'
         | (Inr (action, current_state), w') \<Rightarrow>
             report env arn st d (State_Name i) action current_state w')"
proof -
  have "try_except (report env arn st d p a c) h w' = report env arn st d p a c w'"
    for d p a c h w'
    using report_returns [of env arn st d p a c w']
    by (cases "report env arn st d p a c w'") (simp add: try_except_def)
  then show ?thesis
    by (simp add: process_instance_def Let_def bind_def log_info_def now_def emit_def
        split: prod.split sum.split)
qed

lemma change_state_start:
  "in_workday t \<Longrightarrow>
   change_state env t iid ''stopped'' w =
     (case ec2_start_instances env (trace w) [iid] of
        None \<Rightarrow> Inr (Some ''STARTED'', ''running'') | Some e \<Rightarrow> Inl e,
      w\<lparr>trace := trace w @ [Start_instances [iid]]\<rparr>)"
  by (simp add: change_state_def io_defs split: option.split)

lemma change_state_stop:
  "\<not> in_workday t \<Longrightarrow>
   change_state env t iid ''running'' w =
     (case ec2_stop_instances env (trace w) [iid] of
        None \<Rightarrow> Inr (Some ''STOPPED'', ''stopped'') | Some e \<Rightarrow> Inl e,
      w\<lparr>trace := trace w @ [Stop_instances [iid]]\<rparr>)"
  by (simp add: change_state_def io_defs split: option.split)

lemma change_state_idle:
  "(if in_workday t then state \<noteq> ''stopped'' else state \<noteq> ''running'') \<Longrightarrow>
   change_state env t iid state w = (Inr (None, state), w)"
  by (simp add: change_state_def io_defs split: if_splits)

lemma process_instance_idle:
  assumes "if in_workday (time (utcnow env (ticks w)))
           then State_Name i \<noteq> ''stopped'' else State_Name i \<noteq> ''running''"
  shows "process_instance env arn st i w =
           (Inr (), w\<lparr>trace := trace w @ [Log_info (checking_message (read_instance i))],
                     ticks := Suc (Suc (ticks w))\<rparr>)"
  by (simp add: process_instance_eq Let_def change_state_idle [OF assms] report_eq return_def)

lemma process_instance_started:
  assumes "in_workday (time (utcnow env (ticks w)))" and "State_Name i = ''stopped''"
    and "ec2_start_instances env (trace w @ [Log_info (checking_message (read_instance i))])
           [InstanceId i] = None"
  shows "process_instance env arn st i w =
           send_sns_notification env arn ''EC2 Instance STARTED''
             (success_message ''STARTED'' (read_instance i) ''stopped'' ''running''
                (isoformat env (utcnow env (Suc (ticks w))))
                (total_seconds_2f env (utcnow env (Suc (ticks w))) st))
             (w\<lparr>trace := trace w @ [Log_info (checking_message (read_instance i)),
                                   Start_instances [InstanceId i]],
                ticks := Suc (Suc (ticks w))\<rparr>)"
  using assms
  by (simp add: process_instance_eq Let_def change_state_start report_eq)

lemma process_instance_start_failed:
  assumes "in_workday (time (utcnow env (ticks w)))" and "State_Name i = ''stopped''"
    and "ec2_start_instances env (trace w @ [Log_info (checking_message (read_instance i))])
           [InstanceId i] = Some e"
  shows "process_instance env arn st i w =
           send_sns_notification env arn ''EC2 Instance FAILED''
             (failure_message ''N/A'' (read_instance i) ''stopped''
                (isoformat env (utcnow env (Suc (ticks w))))
                (total_seconds_2f env (utcnow env (Suc (Suc (ticks w)))) st) (str e))
             (w\<lparr>trace := trace w @ [Log_info (checking_message (read_instance i)),
                                   Start_instances [InstanceId i],
                                   Log_error (''Error processing instance '' @ InstanceId i
                                                @ '': '' @ str e)],
                ticks := Suc (Suc (Suc (ticks w)))\<rparr>)"
  using assms
  by (simp add: process_instance_eq Let_def change_state_start on_exception_eq)

lemma process_instance_stopped:
  assumes "\<not> in_workday (time (utcnow env (ticks w)))" and "State_Name i = ''running''"
    and "ec2_stop_instances env (trace w @ [Log_info (checking_message (read_instance i))])
           [InstanceId i] = None"
  shows "process_instance env arn st i w =
           send_sns_notification env arn ''EC2 Instance STOPPED''
             (success_message ''STOPPED'' (read_instance i) ''running'' ''stopped''
                (isoformat env (utcnow env (Suc (ticks w))))
                (total_seconds_2f env (utcnow env (Suc (ticks w))) st))
             (w\<lparr>trace := trace w @ [Log_info (checking_message (read_instance i)),
                                   Stop_instances [InstanceId i]],
                ticks := Suc (Suc (ticks w))\<rparr>)"
  using assms
  by (simp add: process_instance_eq Let_def change_state_stop report_eq)

lemma process_instance_stop_failed:
  assumes "\<not> in_workday (time (utcnow env (ticks w)))" and "State_Name i = ''running''"
    and "ec2_stop_instances env (trace w @ [Log_info (checking_message (read_instance i))])
           [InstanceId i] = Some e"
  shows "process_instance env arn st i w =
           send_sns_notification env arn ''EC2 Instance FAILED''
             (failure_message ''N/A'' (read_instance i) ''running''
                (isoformat env (utcnow env (Suc (ticks w))))
                (total_seconds_2f env (utcnow env (Suc (Suc (ticks w)))) st) (str e))
             (w\<lparr>trace := trace w @ [Log_info (checking_message (read_instance i)),
                                   Stop_instances [InstanceId i],
                                   Log_error (''Error processing instance '' @ InstanceId i
                                                @ '': '' @ str e)],
                ticks := Suc (Suc (Suc (ticks w)))\<rparr>)"
  using assms
  by (simp add: process_instance_eq Let_def change_state_stop on_exception_eq)

lemma published_send [simp]:
  "published (trace (snd (send_sns_notification env arn subject message w))) =
     published (trace w) @ [message]"
  by (simp add: send_sns_notification_eq published_def split: option.split)

lemma state_changes_send [simp]:
  "state_changes (trace (snd (send_sns_notification env arn subject message w))) =
     state_changes (trace w)"
  by (simp add: send_sns_notification_eq state_changes_def split: option.split)

lemma state_changes_process_instance:
  "state_changes (trace (snd (process_instance env arn st i w))) =
     state_changes (trace w) @
       (if in_workday (time (utcnow env (ticks w)))
        then (if State_Name i = ''stopped'' then [Start_instances [InstanceId i]] else [])
        else (if State_Name i = ''running'' then [Stop_instances [InstanceId i]] else []))"
proof -
  let ?t = "time (utcnow env (ticks w))"
  let ?tr = "trace w @ [Log_info (checking_message (read_instance i))]"
  consider
      (idle) "if in_workday ?t then State_Name i \<noteq> ''stopped'' else State_Name i \<noteq> ''running''"
    | (start) "in_workday ?t" "State_Name i = ''stopped''"
    | (stop) "\<not> in_workday ?t" "State_Name i = ''running''"
    by (cases "in_workday ?t"; simp; blast)
  then show ?thesis
  proof cases
    case idle
    then show ?thesis
      by (auto simp: process_instance_idle state_changes_def split: if_splits)
  next
    case start
    show ?thesis
    proof (cases "ec2_start_instances env ?tr [InstanceId i]")
      case None
      with start show ?thesis
        by (simp add: process_instance_started) (simp add: state_changes_def)
    next
      case (Some e)
      with start show ?thesis
        by (simp add: process_instance_start_failed) (simp add: state_changes_def)
    qed
  next
    case stop
    show ?thesis
    proof (cases "ec2_stop_instances env ?tr [InstanceId i]")
      case None
      with stop show ?thesis
        by (simp add: process_instance_stopped) (simp add: state_changes_def)
    next
      case (Some e)
      with stop show ?thesis
        by (simp add: process_instance_stop_failed) (simp add: state_changes_def)
    qed
  qed
qed

lemma process_instance_trace:
  "\<exists>evs. trace (snd (process_instance env arn st i w)) =
          trace w @ Log_info (checking_message (read_instance i)) # evs"
proof -
  let ?t = "time (utcnow env (ticks w))"
  let ?tr = "trace w @ [Log_info (checking_message (read_instance i))]"
  consider
      (idle) "if in_workday ?t then State_Name i \<noteq> ''stopped'' else State_Name i \<noteq> ''running''"
    | (start) "in_workday ?t" "State_Name i = ''stopped''"
    | (stop) "\<not> in_workday ?t" "State_Name i = ''running''"
    by (cases "in_workday ?t"; simp; blast)
  then show ?thesis
  proof cases
    case idle
    then show ?thesis by (simp add: process_instance_idle)
  next
    case start
    then show ?thesis
      by (cases "ec2_start_instances env ?tr [InstanceId i]")
        (simp_all add: process_instance_started process_instance_start_failed
          send_sns_notification_eq)
  next
    case stop
    then show ?thesis
      by (cases "ec2_stop_instances env ?tr [InstanceId i]")
        (simp_all add: process_instance_stopped process_instance_stop_failed
          send_sns_notification_eq)
  qed
qed

lemma for_each_total:
  assumes "\<And>x w. fst (f x w) = Inr ()"
  shows "for_each xs f w = (Inr (), foldl (\<lambda>w x. snd (f x w)) w xs)"
proof (induction xs arbitrary: w)
  case Nil
  show ?case by (simp add: return_def)
next
  case (Cons x xs)
  from assms [of x w] obtain w' where "f x w = (Inr (), w')"
    by (cases "f x w") auto
  with Cons show ?case by (simp add: bind_def)
qed

lemma process_reservations_eq:
  "process_reservations env arn st rs w =
     (Inr (), foldl (\<lambda>w i. snd (process_instance env arn st i w)) w (concat rs))"
proof -
  have inner: "for_each r (process_instance env arn st) w' =
        (Inr (), foldl (\<lambda>w i. snd (process_instance env arn st i w)) w' r)" for r w'
    by (rule for_each_total) (rule process_instance_returns)
  have "for_each rs (\<lambda>r. for_each r (process_instance env arn st)) w =
        (Inr (), foldl (\<lambda>w r. snd (for_each r (process_instance env arn st) w)) w rs)"
    by (rule for_each_total) (simp add: inner)
  also have "foldl (\<lambda>w r. snd (for_each r (process_instance env arn st) w)) w rs =
        foldl (\<lambda>w i. snd (process_instance env arn st i w)) w (concat rs)"
    by (induction rs arbitrary: w) (simp_all add: inner)
  finally show ?thesis by (simp add: process_reservations_def)
qed

lemma foldl_process_trace_mono:
  "set (trace w) \<subseteq> set (trace (foldl (\<lambda>w i. snd (process_instance env arn st i w)) w xs))"
proof (induction xs arbitrary: w)
  case Nil
  show ?case by simp
next
  case (Cons x xs)
  obtain evs where "trace (snd (process_instance env arn st x w)) =
      trace w @ Log_info (checking_message (read_instance x)) # evs"
    using process_instance_trace by blast
  then have "set (trace w) \<subseteq> set (trace (snd (process_instance env arn st x w)))" by auto
  with Cons [of "snd (process_instance env arn st x w)"] show ?case by auto
qed

lemma foldl_process_checked:
  "i \<in> set xs \<Longrightarrow>
   Log_info (checking_message (read_instance i))
     \<in> set (trace (foldl (\<lambda>w i. snd (process_instance env arn st i w)) w xs))"
proof (induction xs arbitrary: w)
  case Nil
  then show ?case by simp
next
  case (Cons x xs)
  show ?case
  proof (cases "i = x")
    case True
    obtain evs where "trace (snd (process_instance env arn st x w)) =
        trace w @ Log_info (checking_message (read_instance x)) # evs"
      using process_instance_trace by blast
    then have "Log_info (checking_message (read_instance x))
        \<in> set (trace (snd (process_instance env arn st x w)))" by simp
    with foldl_process_trace_mono [of "snd (process_instance env arn st x w)" env arn st xs] True
    show ?thesis by auto
  next
    case False
    with Cons show ?thesis by simp
  qed
qed

lemma sublist_concat: "x \<in> set xs \<Longrightarrow> sublist x (concat xs)"
proof -
  assume "x \<in> set xs"
  then obtain ys zs where "xs = ys @ x # zs" by (auto simp: in_set_conv_decomp)
  then have "concat xs = concat ys @ x @ concat zs" by simp
  then show ?thesis by (simp only: sublist_appendI)
qed

lemma sublist_field: "sublist (l @ x @ r) m \<Longrightarrow> sublist x m"
  using sublist_order.order_trans [OF sublist_appendI] by blast

lemma success_message_lines:
  "sublist (''Action        : '' @ a @ nl) (success_message a d p c ts dur)"
  "sublist (''Instance ID   : '' @ instance_id d @ nl) (success_message a d p c ts dur)"
  "sublist (''Instance Name : '' @ instance_name d @ nl) (success_message a d p c ts dur)"
  "sublist (''Region        : '' @ instance_region d @ nl) (success_message a d p c ts dur)"
  "sublist (''Instance Type : '' @ instance_type d @ nl) (success_message a d p c ts dur)"
  "sublist (''Previous State: '' @ p @ nl) (success_message a d p c ts dur)"
  "sublist (''Current State : '' @ c @ nl) (success_message a d p c ts dur)"
  "sublist (''Environment   : '' @ environment d @ nl) (success_message a d p c ts dur)"
  "sublist (''Owner         : '' @ owner d @ nl) (success_message a d p c ts dur)"
  "sublist (''Triggered By  : EventBridge Rule - ec2-start-stop-instances'' @ nl)
     (success_message a d p c ts dur)"
  "sublist (''Execution Time: '' @ ts @ nl) (success_message a d p c ts dur)"
  "sublist (''Duration      : '' @ dur @ '' seconds'' @ nl) (success_message a d p c ts dur)"
  unfolding success_message_def by (rule sublist_concat, simp)+

lemma failure_message_lines:
  "sublist (''Instance Name : '' @ instance_name d @ nl) (failure_message a d p ts dur err)"
  "sublist (''Instance Type : '' @ instance_type d @ nl) (failure_message a d p ts dur err)"
  "sublist (''Environment   : '' @ environment d @ nl) (failure_message a d p ts dur err)"
  "sublist (''Owner         : '' @ owner d @ nl) (failure_message a d p ts dur err)"
  unfolding failure_message_def by (rule sublist_concat, simp)+

lemma foldl_tag_step_absent:
  "''Name'' \<notin> fst ` set tags \<Longrightarrow> instance_name (foldl tag_step d tags) = instance_name d"
  "''Environment'' \<notin> fst ` set tags \<Longrightarrow> environment (foldl tag_step d tags) = environment d"
  "''Owner'' \<notin> fst ` set tags \<Longrightarrow> owner (foldl tag_step d tags) = owner d"
  by (induction tags arbitrary: d; force)+

lemma foldl_tag_step_present:
  "distinct (map fst tags) \<Longrightarrow> (''Name'', X) \<in> set tags \<Longrightarrow>
     instance_name (foldl tag_step d tags) = X"
  "distinct (map fst tags) \<Longrightarrow> (''Environment'', Y) \<in> set tags \<Longrightarrow>
     environment (foldl tag_step d tags) = Y"
  "distinct (map fst tags) \<Longrightarrow> (''Owner'', Z) \<in> set tags \<Longrightarrow>
     owner (foldl tag_step d tags) = Z"
  by (induction tags arbitrary: d; force simp: foldl_tag_step_absent)+

lemma reports_of_eq:
  "published (trace (snd (process_instance env arn st i w))) =
     published (trace w) @ reports_of env arn st i w"
proof -
  obtain evs where "trace (snd (process_instance env arn st i w)) =
      trace w @ Log_info (checking_message (read_instance i)) # evs"
    using process_instance_trace by blast
  then show ?thesis by (simp add: reports_of_def published_def)
qed

lemma reports_of_idle:
  assumes "if in_workday (time (utcnow env (ticks w)))
           then State_Name i \<noteq> ''stopped'' else State_Name i \<noteq> ''running''"
  shows "reports_of env arn st i w = []"
  by (simp add: reports_of_def process_instance_idle [OF assms] published_def)

lemma reports_of_started:
  assumes "in_workday (time (utcnow env (ticks w)))" and "State_Name i = ''stopped''"
    and "ec2_start_instances env (trace w @ [Log_info (checking_message (read_instance i))])
           [InstanceId i] = None"
  shows "reports_of env arn st i w =
           [success_message ''STARTED'' (read_instance i) ''stopped'' ''running''
              (isoformat env (utcnow env (Suc (ticks w))))
              (total_seconds_2f env (utcnow env (Suc (ticks w))) st)]"
  by (simp add: reports_of_def process_instance_started [OF assms])
     (simp add: published_def)

lemma reports_of_start_failed:
  assumes "in_workday (time (utcnow env (ticks w)))" and "State_Name i = ''stopped''"
    and "ec2_start_instances env (trace w @ [Log_info (checking_message (read_instance i))])
           [InstanceId i] = Some e"
  shows "reports_of env arn st i w =
           [failure_message ''N/A'' (read_instance i) ''stopped''
              (isoformat env (utcnow env (Suc (ticks w))))
              (total_seconds_2f env (utcnow env (Suc (Suc (ticks w)))) st) (str e)]"
  by (simp add: reports_of_def process_instance_start_failed [OF assms])
     (simp add: published_def)

lemma reports_of_stopped:
  assumes "\<not> in_workday (time (utcnow env (ticks w)))" and "State_Name i = ''running''"
    and "ec2_stop_instances env (trace w @ [Log_info (checking_message (read_instance i))])
           [InstanceId i] = None"
  shows "reports_of env arn st i w =
           [success_message ''STOPPED'' (read_instance i) ''running'' ''stopped''
              (isoformat env (utcnow env (Suc (ticks w))))
              (total_seconds_2f env (utcnow env (Suc (ticks w))) st)]"
  by (simp add: reports_of_def process_instance_stopped [OF assms])
     (simp add: published_def)

lemma reports_of_stop_failed:
  assumes "\<not> in_workday (time (utcnow env (ticks w)))" and "State_Name i = ''running''"
    and "ec2_stop_instances env (trace w @ [Log_info (checking_message (read_instance i))])
           [InstanceId i] = Some e"
  shows "reports_of env arn st i w =
           [failure_message ''N/A'' (read_instance i) ''running''
              (isoformat env (utcnow env (Suc (ticks w))))
              (total_seconds_2f env (utcnow env (Suc (Suc (ticks w)))) st) (str e)]"
  by (simp add: reports_of_def process_instance_stop_failed [OF assms])
     (simp add: published_def)

lemma reports_of_cases:
  "reports_of env arn st i w = [] \<or>
   (\<exists>a p c ts dur. reports_of env arn st i w = [success_message a (read_instance i) p c ts dur]) \<or>
   (\<exists>a p ts dur err. reports_of env arn st i w = [failure_message a (read_instance i) p ts dur err])"
proof -
  let ?t = "time (utcnow env (ticks w))"
  let ?tr = "trace w @ [Log_info (checking_message (read_instance i))]"
  consider
      (idle) "if in_workday ?t then State_Name i \<noteq> ''stopped'' else State_Name i \<noteq> ''running''"
    | (start) "in_workday ?t" "State_Name i = ''stopped''"
    | (stop) "\<not> in_workday ?t" "State_Name i = ''running''"
    by (cases "in_workday ?t"; simp; blast)
  then show ?thesis
  proof cases
    case idle
    then show ?thesis by (simp add: reports_of_idle)
  next
    case start
    then show ?thesis
      by (cases "ec2_start_instances env ?tr [InstanceId i]")
        (metis reports_of_started reports_of_start_failed)+
  next
    case stop
    then show ?thesis
      by (cases "ec2_stop_instances env ?tr [InstanceId i]")
        (metis reports_of_stopped reports_of_stop_failed)+
  qed
qed

lemma read_instance_no_tag:
  "\<forall>tags. Tags i = Some tags \<longrightarrow> ''Name'' \<notin> fst ` set tags \<Longrightarrow>
     instance_name (read_instance i) = ''N/A''"
  "\<forall>tags. Tags i = Some tags \<longrightarrow> ''Environment'' \<notin> fst ` set tags \<Longrightarrow>
     environment (read_instance i) = ''N/A''"
  "\<forall>tags. Tags i = Some tags \<longrightarrow> ''Owner'' \<notin> fst ` set tags \<Longrightarrow>
     owner (read_instance i) = ''N/A''"
  by (cases "Tags i"; simp add: read_instance_def Let_def foldl_tag_step_absent)+

lemma read_instance_tag:
  "Tags i = Some tags \<Longrightarrow> distinct (map fst tags) \<Longrightarrow> (''Name'', X) \<in> set tags \<Longrightarrow>
     instance_name (read_instance i) = X"
  "Tags i = Some tags \<Longrightarrow> distinct (map fst tags) \<Longrightarrow> (''Environment'', Y) \<in> set tags \<Longrightarrow>
     environment (read_instance i) = Y"
  "Tags i = Some tags \<Longrightarrow> distinct (map fst tags) \<Longrightarrow> (''Owner'', Z) \<in> set tags \<Longrightarrow>
     owner (read_instance i) = Z"
  by (simp_all add: read_instance_def Let_def foldl_tag_step_present)

text \<open>
  Claim C1. The workday window is [03:30:00, 08:00:00). At a time inside it, the policy
  step sends the start request for an instance that is \<open>stopped\<close> and, when the provider
  accepts it, sets the action to \<open>STARTED\<close>; for an instance that is \<open>running\<close> it sends
  nothing and leaves the action empty. At a time outside it, an instance that is
  \<open>running\<close> gets the stop request and the action \<open>STOPPED\<close>, and one that is \<open>stopped\<close>
  gets nothing.
\<close>
theorem policy_by_window:
  "(in_workday t \<longleftrightarrow> (hour t = 3 \<and> 30 \<le> minute t) \<or> (4 \<le> hour t \<and> hour t < 8)) \<and>
   (in_workday t \<longrightarrow>
      snd (change_state env t iid ''stopped'' w) = emit (Start_instances [iid]) w \<and>
      (ec2_start_instances env (trace w) [iid] = None \<longrightarrow>
         fst (change_state env t iid ''stopped'' w) = Inr (Some ''STARTED'', ''running'')) \<and>
      change_state env t iid ''running'' w = (Inr (None, ''running''), w)) \<and>
   (\<not> in_workday t \<longrightarrow>
      snd (change_state env t iid ''running'' w) = emit (Stop_instances [iid]) w \<and>
      (ec2_stop_instances env (trace w) [iid] = None \<longrightarrow>
         fst (change_state env t iid ''running'' w) = Inr (Some ''STOPPED'', ''stopped'')) \<and>
      change_state env t iid ''stopped'' w = (Inr (None, ''stopped''), w))"
proof -
  have window: "in_workday t \<longleftrightarrow> (hour t = 3 \<and> 30 \<le> minute t) \<or> (4 \<le> hour t \<and> hour t < 8)"
    by (rule in_workday_iff)
  have inside: "in_workday t \<longrightarrow>
      snd (change_state env t iid ''stopped'' w) = emit (Start_instances [iid]) w \<and>
      (ec2_start_instances env (trace w) [iid] = None \<longrightarrow>
         fst (change_state env t iid ''stopped'' w) = Inr (Some ''STARTED'', ''running'')) \<and>
      change_state env t iid ''running'' w = (Inr (None, ''running''), w)"
    by (simp add: change_state_start change_state_idle emit_def)
  have outside: "\<not> in_workday t \<longrightarrow>
      snd (change_state env t iid ''running'' w) = emit (Stop_instances [iid]) w \<and>
      (ec2_stop_instances env (trace w) [iid] = None \<longrightarrow>
         fst (change_state env t iid ''running'' w) = Inr (Some ''STOPPED'', ''stopped'')) \<and>
      change_state env t iid ''stopped'' w = (Inr (None, ''stopped''), w)"
    by (simp add: change_state_stop change_state_idle emit_def)
  from window inside outside show ?thesis by blast
qed

lemma sample_window [simp]:
  "in_workday (at_hour 5)" "\<not> in_workday (at_hour 9)"
  "in_workday (time (utcnow (sample_env 5 broken) n))"
  "\<not> in_workday (time (utcnow (sample_env 9 broken) n))"
  by (simp_all add: in_workday_iff at_hour_def sample_env_def)

theorem policy_by_window_witness:
  "in_workday (at_hour 5) \<and> \<not> in_workday (at_hour 9) \<and>
   ec2_start_instances (sample_env 5 []) (trace sample_world) [''i-0a''] = None \<and>
   ec2_stop_instances (sample_env 9 []) (trace sample_world) [''i-0a''] = None \<and>
   change_state (sample_env 5 []) (at_hour 5) ''i-0a'' ''stopped'' sample_world =
     (Inr (Some ''STARTED'', ''running''), emit (Start_instances [''i-0a'']) sample_world) \<and>
   change_state (sample_env 5 []) (at_hour 5) ''i-0a'' ''running'' sample_world =
     (Inr (None, ''running''), sample_world) \<and>
   change_state (sample_env 9 []) (at_hour 9) ''i-0a'' ''running'' sample_world =
     (Inr (Some ''STOPPED'', ''stopped''), emit (Stop_instances [''i-0a'']) sample_world) \<and>
   change_state (sample_env 9 []) (at_hour 9) ''i-0a'' ''stopped'' sample_world =
     (Inr (None, ''stopped''), sample_world)"
proof -
  have a: "ec2_start_instances (sample_env 5 []) (trace sample_world) [''i-0a''] = None"
    and b: "ec2_stop_instances (sample_env 9 []) (trace sample_world) [''i-0a''] = None"
    by (simp_all add: sample_env_def)
  from a b
    policy_by_window [of "at_hour 5" "sample_env 5 []" "''i-0a''" sample_world]
    policy_by_window [of "at_hour 9" "sample_env 9 []" "''i-0a''" sample_world]
  show ?thesis
    by (simp add: prod_eq_iff)
qed

text \<open>
  Claim C2, against the claim as it is written: at 05:00, inside the window, an instance
  that is \<open>stopping\<close> is not running and yet gets no start request; at 09:00, outside the
  window, an instance that is \<open>pending\<close> is not stopped and yet gets no stop request.
\<close>
theorem other_states_counterexample:
  "in_workday (time (utcnow (sample_env 5 []) (ticks sample_world))) \<and>
   State_Name (sample_instance ''i-0a'' ''stopping'') \<noteq> ''running'' \<and>
   state_changes (trace (snd (process_instance (sample_env 5 [])
      ''arn:aws:sns:us-east-2:111122223333:ec2'' sample_start_time
      (sample_instance ''i-0a'' ''stopping'') sample_world))) = [] \<and>
   \<not> in_workday (time (utcnow (sample_env 9 []) (ticks sample_world))) \<and>
   State_Name (sample_instance ''i-0a'' ''pending'') \<noteq> ''stopped'' \<and>
   state_changes (trace (snd (process_instance (sample_env 9 [])
      ''arn:aws:sns:us-east-2:111122223333:ec2'' sample_start_time
      (sample_instance ''i-0a'' ''pending'') sample_world))) = []"
  by (simp add: state_changes_process_instance)
     (simp add: sample_instance_def sample_world_def state_changes_def)

text \<open>
  Claim C2, as amended: the requests one instance adds to the trace are the start request
  exactly when the time is inside the window and the state is \<open>stopped\<close>, the stop request
  exactly when the time is outside the window and the state is \<open>running\<close>, and none in
  every other state.
\<close>
theorem requests_by_state:
  "state_changes (trace (snd (process_instance env arn st i w))) =
     state_changes (trace w) @
       (if in_workday (time (utcnow env (ticks w)))
        then (if State_Name i = ''stopped'' then [Start_instances [InstanceId i]] else [])
        else (if State_Name i = ''running'' then [Stop_instances [InstanceId i]] else []))"
  by (rule state_changes_process_instance)

theorem requests_by_state_witness:
  "state_changes (trace (snd (process_instance (sample_env 5 [''i-0a''])
      ''arn:aws:sns:us-east-2:111122223333:ec2'' sample_start_time
      (sample_instance ''i-0a'' ''stopped'') sample_world))) = [Start_instances [''i-0a'']] \<and>
   state_changes (trace (snd (process_instance (sample_env 9 [])
      ''arn:aws:sns:us-east-2:111122223333:ec2'' sample_start_time
      (sample_instance ''i-0b'' ''running'') sample_world))) = [Stop_instances [''i-0b'']] \<and>
   state_changes (trace (snd (process_instance (sample_env 9 [])
      ''arn:aws:sns:us-east-2:111122223333:ec2'' sample_start_time
      (sample_instance ''i-0b'' ''terminated'') sample_world))) = []"
  using
    requests_by_state [of "sample_env 5 [''i-0a'']" "''arn:aws:sns:us-east-2:111122223333:ec2''"
      sample_start_time "sample_instance ''i-0a'' ''stopped''" sample_world]
    requests_by_state [of "sample_env 9 []" "''arn:aws:sns:us-east-2:111122223333:ec2''"
      sample_start_time "sample_instance ''i-0b'' ''running''" sample_world]
    requests_by_state [of "sample_env 9 []" "''arn:aws:sns:us-east-2:111122223333:ec2''"
      sample_start_time "sample_instance ''i-0b'' ''terminated''" sample_world]
  by (simp add: sample_instance_def sample_world_def state_changes_def)

text \<open>
  Claim C8. An instance that is already in the state the window asks for (running inside
  it, stopped outside it) gets the log record of line 78 and nothing else: no request and
  no report. And the policy step is idempotent: applied again at the same time to the
  state it has just assumed, it sends nothing and leaves the action empty.
\<close>
theorem target_state_is_noop:
  "((if in_workday (time (utcnow env (ticks w)))
     then State_Name i = ''running'' else State_Name i = ''stopped'') \<longrightarrow>
    process_instance env arn st i w =
      (Inr (), w\<lparr>trace := trace w @ [Log_info (checking_message (read_instance i))],
                ticks := Suc (Suc (ticks w))\<rparr>)) \<and>
   (fst (change_state env t iid state w) = Inr (action, current_state) \<longrightarrow>
    change_state env' t iid current_state w' = (Inr (None, current_state), w'))"
proof -
  have first: "(if in_workday (time (utcnow env (ticks w)))
     then State_Name i = ''running'' else State_Name i = ''stopped'') \<longrightarrow>
    process_instance env arn st i w =
      (Inr (), w\<lparr>trace := trace w @ [Log_info (checking_message (read_instance i))],
                ticks := Suc (Suc (ticks w))\<rparr>)"
  proof
    assume "if in_workday (time (utcnow env (ticks w)))
      then State_Name i = ''running'' else State_Name i = ''stopped''"
    then have "if in_workday (time (utcnow env (ticks w)))
      then State_Name i \<noteq> ''stopped'' else State_Name i \<noteq> ''running''"
      by (simp split: if_splits)
    then show "process_instance env arn st i w =
      (Inr (), w\<lparr>trace := trace w @ [Log_info (checking_message (read_instance i))],
                ticks := Suc (Suc (ticks w))\<rparr>)"
      by (rule process_instance_idle)
  qed
  have second: "fst (change_state env t iid state w) = Inr (action, current_state) \<longrightarrow>
    change_state env' t iid current_state w' = (Inr (None, current_state), w')"
  proof
    assume r: "fst (change_state env t iid state w) = Inr (action, current_state)"
    have "if in_workday t then current_state \<noteq> ''stopped'' else current_state \<noteq> ''running''"
      using r
      by (auto simp: change_state_def io_defs split: if_splits option.splits)
    then show "change_state env' t iid current_state w' = (Inr (None, current_state), w')"
      by (rule change_state_idle)
  qed
  from first second show ?thesis by blast
qed

theorem target_state_is_noop_witness:
  "in_workday (time (utcnow (sample_env 5 []) (ticks sample_world))) \<and>
   State_Name (sample_instance ''i-0a'' ''running'') = ''running'' \<and>
   trace (snd (process_instance (sample_env 5 []) ''arn:aws:sns:us-east-2:111122223333:ec2''
      sample_start_time (sample_instance ''i-0a'' ''running'') sample_world)) =
     [Log_info ''Checking instance i-0a (web-1, N/A) - Current state: running''] \<and>
   fst (change_state (sample_env 5 []) (at_hour 5) ''i-0a'' ''stopped'' sample_world) =
     Inr (Some ''STARTED'', ''running'') \<and>
   change_state (sample_env 5 [''i-0a'']) (at_hour 5) ''i-0a'' ''running'' sample_world =
     (Inr (None, ''running''), sample_world)"
proof -
  have a: "fst (change_state (sample_env 5 []) (at_hour 5) ''i-0a'' ''stopped'' sample_world) =
     Inr (Some ''STARTED'', ''running'')"
    by (simp add: change_state_start sample_env_def)
  have b: "checking_message (read_instance (sample_instance ''i-0a'' ''running'')) =
     ''Checking instance i-0a (web-1, N/A) - Current state: running''"
    by (simp add: checking_message_def read_instance_def sample_instance_def)
  from a b
    target_state_is_noop [of "sample_env 5 []" sample_world "sample_instance ''i-0a'' ''running''"
      "''arn:aws:sns:us-east-2:111122223333:ec2''" sample_start_time "at_hour 5" "''i-0a''"
      "''stopped''" "Some ''STARTED''" "''running''" "sample_env 5 [''i-0a'']" sample_world]
  show ?thesis
    by (simp add: sample_instance_def sample_world_def)
qed

text \<open>
  Claim C3. Processing one instance never raises: when the start or the stop request
  fails, the exception is caught and logged. So the two loops run to their end whatever
  the provider answers: the world they leave is the one obtained by processing every
  instance of every reservation in turn, and the log record of line 78 is there for each
  of them.
\<close>
theorem failures_do_not_stop_the_loop:
  "fst (process_instance env arn st i w) = Inr () \<and>
   (in_workday (time (utcnow env (ticks w))) \<and> State_Name i = ''stopped'' \<and>
    ec2_start_instances env (trace w @ [Log_info (checking_message (read_instance i))])
      [InstanceId i] = Some e \<longrightarrow>
    Log_error (''Error processing instance '' @ InstanceId i @ '': '' @ str e)
      \<in> set (trace (snd (process_instance env arn st i w)))) \<and>
   (\<not> in_workday (time (utcnow env (ticks w))) \<and> State_Name i = ''running'' \<and>
    ec2_stop_instances env (trace w @ [Log_info (checking_message (read_instance i))])
      [InstanceId i] = Some e \<longrightarrow>
    Log_error (''Error processing instance '' @ InstanceId i @ '': '' @ str e)
      \<in> set (trace (snd (process_instance env arn st i w)))) \<and>
   process_reservations env arn st rs w =
     (Inr (), foldl (\<lambda>w i. snd (process_instance env arn st i w)) w (concat rs)) \<and>
   (\<forall>j \<in> set (concat rs).
      Log_info (checking_message (read_instance j))
        \<in> set (trace (snd (process_reservations env arn st rs w))))"
proof -
  have caught: "fst (process_instance env arn st i w) = Inr ()"
    by (rule process_instance_returns)
  have start: "in_workday (time (utcnow env (ticks w))) \<and> State_Name i = ''stopped'' \<and>
    ec2_start_instances env (trace w @ [Log_info (checking_message (read_instance i))])
      [InstanceId i] = Some e \<longrightarrow>
    Log_error (''Error processing instance '' @ InstanceId i @ '': '' @ str e)
      \<in> set (trace (snd (process_instance env arn st i w)))"
    by (simp add: process_instance_start_failed send_sns_notification_eq)
  have stop: "\<not> in_workday (time (utcnow env (ticks w))) \<and> State_Name i = ''running'' \<and>
    ec2_stop_instances env (trace w @ [Log_info (checking_message (read_instance i))])
      [InstanceId i] = Some e \<longrightarrow>
    Log_error (''Error processing instance '' @ InstanceId i @ '': '' @ str e)
      \<in> set (trace (snd (process_instance env arn st i w)))"
    by (simp add: process_instance_stop_failed send_sns_notification_eq)
  have loop: "process_reservations env arn st rs w =
     (Inr (), foldl (\<lambda>w i. snd (process_instance env arn st i w)) w (concat rs))"
    by (rule process_reservations_eq)
  have all: "\<forall>j \<in> set (concat rs).
      Log_info (checking_message (read_instance j))
        \<in> set (trace (snd (process_reservations env arn st rs w)))"
    unfolding loop snd_conv by (blast intro: foldl_process_checked)
  from caught start stop loop all show ?thesis by blast
qed

lemma sample_checking [simp]:
  "checking_message (read_instance (sample_instance iid state)) =
     ''Checking instance '' @ iid @ '' (web-1, N/A) - Current state: '' @ state"
  by (simp add: checking_message_def read_instance_def sample_instance_def)

theorem failures_do_not_stop_the_loop_witness:
  "in_workday (time (utcnow (sample_env 5 [''i-0a'']) (ticks sample_world))) \<and>
   State_Name (sample_instance ''i-0a'' ''stopped'') = ''stopped'' \<and>
   ec2_start_instances (sample_env 5 [''i-0a''])
     (trace sample_world @
        [Log_info (checking_message (read_instance (sample_instance ''i-0a'' ''stopped'')))])
     [InstanceId (sample_instance ''i-0a'' ''stopped'')] = Some (Exception ''InsufficientCapacity'') \<and>
   Log_error ''Error processing instance i-0a: InsufficientCapacity''
     \<in> set (trace (snd (process_instance (sample_env 5 [''i-0a''])
          ''arn:aws:sns:us-east-2:111122223333:ec2'' sample_start_time
          (sample_instance ''i-0a'' ''stopped'') sample_world))) \<and>
   sample_instance ''i-0b'' ''stopped'' \<in> set (concat sample_reservations) \<and>
   fst (process_reservations (sample_env 5 [''i-0a''])
          ''arn:aws:sns:us-east-2:111122223333:ec2'' sample_start_time
          sample_reservations sample_world) = Inr () \<and>
   Log_info ''Checking instance i-0b (web-1, N/A) - Current state: stopped''
     \<in> set (trace (snd (process_reservations (sample_env 5 [''i-0a''])
          ''arn:aws:sns:us-east-2:111122223333:ec2'' sample_start_time
          sample_reservations sample_world)))"
proof -
  let ?env = "sample_env 5 [''i-0a'']"
  let ?arn = "''arn:aws:sns:us-east-2:111122223333:ec2''"
  have a: "in_workday (time (utcnow ?env (ticks sample_world)))" by simp
  have b: "State_Name (sample_instance ''i-0a'' ''stopped'') = ''stopped''"
    by (simp add: sample_instance_def)
  have c: "ec2_start_instances ?env
     (trace sample_world @
        [Log_info (checking_message (read_instance (sample_instance ''i-0a'' ''stopped'')))])
     [InstanceId (sample_instance ''i-0a'' ''stopped'')] = Some (Exception ''InsufficientCapacity'')"
    by (simp add: sample_env_def sample_instance_def)
  have d: "sample_instance ''i-0b'' ''stopped'' \<in> set (concat sample_reservations)"
    by (simp add: sample_reservations_def)
  have e: "InstanceId (sample_instance ''i-0a'' ''stopped'') = ''i-0a''"
    by (simp add: sample_instance_def)
  note T = failures_do_not_stop_the_loop [of ?env ?arn sample_start_time
      "sample_instance ''i-0a'' ''stopped''" sample_world "Exception ''InsufficientCapacity''"
      sample_reservations]
  from T a b c have err:
    "Log_error (''Error processing instance '' @ InstanceId (sample_instance ''i-0a'' ''stopped'')
        @ '': '' @ str (Exception ''InsufficientCapacity''))
      \<in> set (trace (snd (process_instance ?env ?arn sample_start_time
            (sample_instance ''i-0a'' ''stopped'') sample_world)))"
    by blast
  from T have loop: "fst (process_reservations ?env ?arn sample_start_time
      sample_reservations sample_world) = Inr ()"
    by simp
  from T d have checked:
    "Log_info (checking_message (read_instance (sample_instance ''i-0b'' ''stopped'')))
      \<in> set (trace (snd (process_reservations ?env ?arn sample_start_time
            sample_reservations sample_world)))"
    by blast
  from err have err': "Log_error ''Error processing instance i-0a: InsufficientCapacity''
      \<in> set (trace (snd (process_instance ?env ?arn sample_start_time
            (sample_instance ''i-0a'' ''stopped'') sample_world)))"
    by (simp add: e)
  from checked have checked':
    "Log_info ''Checking instance i-0b (web-1, N/A) - Current state: stopped''
      \<in> set (trace (snd (process_reservations ?env ?arn sample_start_time
            sample_reservations sample_world)))"
    by simp
  from a b c d err' loop checked' show ?thesis by blast
qed

text \<open>
  Claim C9. When the listing request succeeds, the handler returns status 200 with the
  fixed body, whatever the provider then answers to the start, stop and publish requests:
  the value says nothing about the instances that failed.
\<close>
theorem handler_returns_200:
  "ec2_describe_instances env
     (trace w @ [Log_info ''Fetching instances with tag Reboot=WORKDAY''])
     [(''tag:Reboot'', [''WORKDAY''])] = Inr rs \<Longrightarrow>
   fst (lambda_handler env arn event context w) =
     Inr \<lparr>statusCode = 200, body = ''EC2 start/stop check completed successfully.''\<rparr>"
  by (simp add: lambda_handler_def Let_def bind_def now_def log_info_def
      describe_instances_def emit_def return_def process_reservations_eq)

theorem handler_returns_200_witness:
  "ec2_describe_instances (sample_env 5 [''i-0a'', ''i-0b''])
     (trace sample_world @ [Log_info ''Fetching instances with tag Reboot=WORKDAY''])
     [(''tag:Reboot'', [''WORKDAY''])] =
     Inr [[sample_instance ''i-0a'' ''stopped''], [sample_instance ''i-0b'' ''stopped'']] \<and>
   fst (lambda_handler (sample_env 5 [''i-0a'', ''i-0b''])
          ''arn:aws:sns:us-east-2:111122223333:ec2'' () () sample_world) =
     Inr \<lparr>statusCode = 200, body = ''EC2 start/stop check completed successfully.''\<rparr>"
proof -
  have a: "ec2_describe_instances (sample_env 5 [''i-0a'', ''i-0b''])
     (trace sample_world @ [Log_info ''Fetching instances with tag Reboot=WORKDAY''])
     [(''tag:Reboot'', [''WORKDAY''])] =
     Inr [[sample_instance ''i-0a'' ''stopped''], [sample_instance ''i-0b'' ''stopped'']]"
    by (simp add: sample_env_def)
  from a handler_returns_200 [OF a, of "''arn:aws:sns:us-east-2:111122223333:ec2''" "()" "()"]
  show ?thesis by simp
qed

text \<open>
  Claim C6. When the lookup of the topic in the parameter store fails, the failure is
  logged and the same exception is raised again while the module is loaded; the run ends
  there, so nothing but the lookup and the log record is in the trace: no instance has
  been listed, started or stopped and nothing has been published.
\<close>
theorem lookup_failure_aborts:
  "ssm_get_parameter env (trace w)
     (case environ env ''SNS_TOPIC_PARAM_NAME'' of
        None \<Rightarrow> ''ec2-notification-sns'' | Some v \<Rightarrow> v) = Inl e \<Longrightarrow>
   get_sns_topic_arn env w =
     (Inl e, w\<lparr>trace := trace w @
        [Get_parameter (case environ env ''SNS_TOPIC_PARAM_NAME'' of
                          None \<Rightarrow> ''ec2-notification-sns'' | Some v \<Rightarrow> v),
         Log_error (''Failed to get SNS topic ARN from SSM: '' @ str e)]\<rparr>) \<and>
   run env event context w =
     (Inl e, w\<lparr>trace := trace w @
        [Get_parameter (case environ env ''SNS_TOPIC_PARAM_NAME'' of
                          None \<Rightarrow> ''ec2-notification-sns'' | Some v \<Rightarrow> v),
         Log_error (''Failed to get SNS topic ARN from SSM: '' @ str e)]\<rparr>)"
  by (simp add: run_def get_sns_topic_arn_def Let_def try_except_def bind_def
      get_parameter_def log_error_def raise_def emit_def)

theorem lookup_failure_aborts_witness:
  "ssm_get_parameter ((sample_env 5 [])\<lparr>environ := (\<lambda>name. Some ''missing'')\<rparr>)
     (trace sample_world)
     (case environ ((sample_env 5 [])\<lparr>environ := (\<lambda>name. Some ''missing'')\<rparr>)
             ''SNS_TOPIC_PARAM_NAME'' of
        None \<Rightarrow> ''ec2-notification-sns'' | Some v \<Rightarrow> v) = Inl (Exception ''ParameterNotFound'') \<and>
   run ((sample_env 5 [])\<lparr>environ := (\<lambda>name. Some ''missing'')\<rparr>) () () sample_world =
     (Inl (Exception ''ParameterNotFound''),
      \<lparr>trace = [Get_parameter ''missing'',
                Log_error ''Failed to get SNS topic ARN from SSM: ParameterNotFound''],
       ticks = 0\<rparr>)"
proof -
  let ?env = "(sample_env 5 [])\<lparr>environ := (\<lambda>name. Some ''missing'')\<rparr>"
  have a: "ssm_get_parameter ?env (trace sample_world)
     (case environ ?env ''SNS_TOPIC_PARAM_NAME'' of
        None \<Rightarrow> ''ec2-notification-sns'' | Some v \<Rightarrow> v) = Inl (Exception ''ParameterNotFound'')"
    by (simp add: sample_env_def)
  from a lookup_failure_aborts [OF a, of "()" "()"]
  show ?thesis by (simp add: sample_world_def)
qed

text \<open>
  Claim C7. When the publish request fails, \<open>send_sns_notification\<close> returns normally; the
  trace gets the one publish request and the error record, so nothing is tried again.
  The function returns normally in every case, and what one instance gets as start and
  stop requests is the same whatever the notification service answers.
\<close>
theorem publish_failure_ignored:
  "(sns_publish env (trace w) arn subject message = Some e \<longrightarrow>
      send_sns_notification env arn subject message w =
        (Inr (), w\<lparr>trace := trace w @
           [Publish arn subject message,
            Log_error (''Failed to send SNS notification: '' @ str e)]\<rparr>)) \<and>
   fst (send_sns_notification env arn subject message w) = Inr () \<and>
   fst (process_instance (env\<lparr>sns_publish := answers\<rparr>) arn st i w) = Inr () \<and>
   state_changes (trace (snd (process_instance (env\<lparr>sns_publish := answers\<rparr>) arn st i w))) =
     state_changes (trace (snd (process_instance env arn st i w)))"
  by (simp add: send_sns_notification_eq process_instance_returns
      state_changes_process_instance)

theorem publish_failure_ignored_witness:
  "sns_publish ((sample_env 5 [])\<lparr>sns_publish := sns_down\<rparr>) (trace sample_world)
     ''arn:aws:sns:us-east-2:111122223333:ec2'' ''EC2 Instance STARTED'' ''report'' =
     Some (Exception ''AuthorizationError'') \<and>
   send_sns_notification ((sample_env 5 [])\<lparr>sns_publish := sns_down\<rparr>)
     ''arn:aws:sns:us-east-2:111122223333:ec2'' ''EC2 Instance STARTED'' ''report'' sample_world =
     (Inr (), \<lparr>trace = [Publish ''arn:aws:sns:us-east-2:111122223333:ec2''
                           ''EC2 Instance STARTED'' ''report'',
                         Log_error ''Failed to send SNS notification: AuthorizationError''],
               ticks = 0\<rparr>) \<and>
   state_changes (trace (snd (process_instance ((sample_env 5 [])\<lparr>sns_publish := sns_down\<rparr>)
      ''arn:aws:sns:us-east-2:111122223333:ec2'' sample_start_time
      (sample_instance ''i-0a'' ''stopped'') sample_world))) =
   state_changes (trace (snd (process_instance (sample_env 5 [])
      ''arn:aws:sns:us-east-2:111122223333:ec2'' sample_start_time
      (sample_instance ''i-0a'' ''stopped'') sample_world)))"
proof -
  let ?env = "(sample_env 5 [])\<lparr>sns_publish := sns_down\<rparr>"
  have a: "sns_publish ?env (trace sample_world)
     ''arn:aws:sns:us-east-2:111122223333:ec2'' ''EC2 Instance STARTED'' ''report'' =
     Some (Exception ''AuthorizationError'')"
    by (simp add: sns_down_def)
  from a
    publish_failure_ignored [of ?env sample_world "''arn:aws:sns:us-east-2:111122223333:ec2''"
      "''EC2 Instance STARTED''" "''report''" "Exception ''AuthorizationError''"
      sns_down sample_start_time "sample_instance ''i-0a'' ''stopped''"]
    publish_failure_ignored [of "sample_env 5 []" sample_world
      "''arn:aws:sns:us-east-2:111122223333:ec2''"
      "''EC2 Instance STARTED''" "''report''" "Exception ''AuthorizationError''"
      sns_down sample_start_time "sample_instance ''i-0a'' ''stopped''"]
  show ?thesis by (simp add: sample_world_def)
qed

end
